theory Spec2Isabelle
  imports Complex_Main
begin

section \<open>Dates and the clock\<close>

text \<open>
  A JavaScript \<open>Date\<close> holds a time value: a whole number of milliseconds since the
  epoch (UTC), or NaN for an invalid date. \<open>releaseDate\<close> in the server is either such an
  object or \<open>null\<close>; it is modelled as \<open>jsdate option\<close>, \<open>None\<close> for \<open>null\<close>.
\<close>

datatype jsdate = InvalidDate | DateMs int

definition msPerDay :: int where
  "msPerDay = 86400000"

definition Day :: "int \<Rightarrow> int" where
  "Day t = t div msPerDay"

definition MakeDate :: "int \<Rightarrow> int \<Rightarrow> int" where
  "MakeDate day time = day * msPerDay + time"

text \<open>
  Local time is UTC plus the offset \<open>tza\<close> of the server's time zone, in milliseconds.
  The offset is taken to be the same at every instant (a zone without daylight-saving
  transitions).
\<close>

definition LocalTime :: "int \<Rightarrow> int \<Rightarrow> int" where
  "LocalTime tza t = t + tza"

definition UTC :: "int \<Rightarrow> int \<Rightarrow> int" where
  "UTC tza t = t - tza"

text \<open>\<open>now.setHours(0, 0, 0, 0)\<close>: the time value of local midnight of the local day of \<open>t\<close>.\<close>

definition setHours0 :: "int \<Rightarrow> int \<Rightarrow> int" where
  "setHours0 tza t = UTC tza (MakeDate (Day (LocalTime tza t)) 0)"

text \<open>
  \<open>a <= b\<close> on two \<open>Date\<close> objects compares their time values as numbers; with NaN on
  either side the comparison is false.
\<close>

fun date_le :: "jsdate \<Rightarrow> jsdate \<Rightarrow> bool" where
  "date_le (DateMs a) (DateMs b) = (a \<le> b)"
| "date_le _ _ = False"

text \<open>
  \<open>shouldReleaseEpisode\<close> reads the clock itself (\<open>new Date()\<close>); the reading is the
  parameter \<open>clock\<close>. Every object is truthy, an invalid date too, so \<open>!releaseDate\<close> holds
  for \<open>null\<close> only.
\<close>

definition shouldReleaseEpisode :: "int \<Rightarrow> int \<Rightarrow> jsdate option \<Rightarrow> bool" where
  "shouldReleaseEpisode tza clock releaseDate =
     (case releaseDate of
        None \<Rightarrow> True
      | Some d \<Rightarrow> date_le d (DateMs (setHours0 tza clock)))"

section \<open>JavaScript numbers\<close>

text \<open>
  A Number is NaN, an infinity or a finite value. Finite values are kept as exact
  rationals: the rounding of binary64 arithmetic and the sign of zero are not modelled
  (they do not show on whole numbers of seconds below \<open>2^53\<close>).
\<close>

datatype jsnum = NaN | PosInf | NegInf | Fin rat

fun jsnum_add :: "jsnum \<Rightarrow> jsnum \<Rightarrow> jsnum" where
  "jsnum_add NaN _ = NaN"
| "jsnum_add _ NaN = NaN"
| "jsnum_add PosInf NegInf = NaN"
| "jsnum_add NegInf PosInf = NaN"
| "jsnum_add PosInf _ = PosInf"
| "jsnum_add _ PosInf = PosInf"
| "jsnum_add NegInf _ = NegInf"
| "jsnum_add _ NegInf = NegInf"
| "jsnum_add (Fin a) (Fin b) = Fin (a + b)"

fun jsnum_neg :: "jsnum \<Rightarrow> jsnum" where
  "jsnum_neg NaN = NaN"
| "jsnum_neg PosInf = NegInf"
| "jsnum_neg NegInf = PosInf"
| "jsnum_neg (Fin a) = Fin (- a)"

definition jsnum_sub :: "jsnum \<Rightarrow> jsnum \<Rightarrow> jsnum" where
  "jsnum_sub a b = jsnum_add a (jsnum_neg b)"

text \<open>The sign of a Number: \<open>1\<close>, \<open>-1\<close>, and \<open>0\<close> for zero and for NaN.\<close>

fun jsnum_sgn :: "jsnum \<Rightarrow> int" where
  "jsnum_sgn NaN = 0"
| "jsnum_sgn PosInf = 1"
| "jsnum_sgn NegInf = - 1"
| "jsnum_sgn (Fin a) = (if 0 < a then 1 else if a < 0 then - 1 else 0)"

fun jsnum_mul :: "jsnum \<Rightarrow> jsnum \<Rightarrow> jsnum" where
  "jsnum_mul NaN _ = NaN"
| "jsnum_mul _ NaN = NaN"
| "jsnum_mul (Fin a) (Fin b) = Fin (a * b)"
| "jsnum_mul a b =
     (let s = jsnum_sgn a * jsnum_sgn b
      in if s = 0 then NaN else if 0 < s then PosInf else NegInf)"

subsection \<open>\<open>Number(string)\<close>\<close>

definition is_digit :: "char \<Rightarrow> bool" where
  "is_digit c = (let n = of_char c :: nat in 48 \<le> n \<and> n \<le> 57)"

text \<open>The white space and line terminators that fit an 8-bit character.\<close>

definition is_space :: "char \<Rightarrow> bool" where
  "is_space c = (of_char c \<in> {9, 10, 11, 12, 13, 32, 160 :: nat})"

definition trim :: "string \<Rightarrow> string" where
  "trim s = rev (dropWhile is_space (rev (dropWhile is_space s)))"

text \<open>The value of a digit in bases up to sixteen; \<open>None\<close> for any other character.\<close>

definition digit_val :: "char \<Rightarrow> nat option" where
  "digit_val c =
     (let n = of_char c :: nat in
      if 48 \<le> n \<and> n \<le> 57 then Some (n - 48)
      else if 97 \<le> n \<and> n \<le> 102 then Some (n - 87)
      else if 65 \<le> n \<and> n \<le> 70 then Some (n - 55)
      else None)"

definition in_base :: "nat \<Rightarrow> char \<Rightarrow> bool" where
  "in_base b c = (case digit_val c of None \<Rightarrow> False | Some v \<Rightarrow> v < b)"

text \<open>The number a digit string denotes in base \<open>b\<close>, most significant digit first.\<close>

definition digits_value :: "nat \<Rightarrow> string \<Rightarrow> nat" where
  "digits_value b ds = foldl (\<lambda>acc c. acc * b + (case digit_val c of None \<Rightarrow> 0 | Some v \<Rightarrow> v)) 0 ds"

definition strip_sign :: "string \<Rightarrow> bool \<times> string" where
  "strip_sign s =
     (case s of
        c # cs \<Rightarrow> if c = CHR ''-'' then (True, cs) else if c = CHR ''+'' then (False, cs) else (False, s)
      | [] \<Rightarrow> (False, s))"

text \<open>
  \<open>0x\<close>, \<open>0o\<close> and \<open>0b\<close> literals: the prefix, then at least one digit of the base and
  nothing else.
\<close>

definition non_decimal :: "string \<Rightarrow> nat option" where
  "non_decimal s =
     (case s of
        z # p # ds \<Rightarrow>
          (let b = (if p \<in> set ''xX'' then 16 else if p \<in> set ''oO'' then 8
                    else if p \<in> set ''bB'' then 2 else (0::nat))
           in if z = CHR ''0'' \<and> b \<noteq> 0 \<and> ds \<noteq> [] \<and> list_all (in_base b) ds
              then Some (digits_value b ds) else None)
      | _ \<Rightarrow> None)"

text \<open>
  An unsigned decimal literal: digits, an optional fraction, an optional exponent, with
  a digit before or after the point. The result is its exact value.
\<close>

definition unsigned_decimal :: "string \<Rightarrow> rat option" where
  "unsigned_decimal s =
     (let ip = takeWhile is_digit s; r1 = dropWhile is_digit s;
          dot = (r1 \<noteq> [] \<and> hd r1 = CHR ''.'');
          fp = (if dot then takeWhile is_digit (tl r1) else []);
          r2 = (if dot then dropWhile is_digit (tl r1) else r1);
          ex = (r2 \<noteq> [] \<and> hd r2 \<in> set ''eE'');
          es = strip_sign (if ex then tl r2 else []);
          ed = snd es;
          mant = of_nat (digits_value 10 (ip @ fp)) :: rat;
          e = int (digits_value 10 ed)
      in if ip = [] \<and> fp = [] then None
         else if \<not> ex then (if r2 = [] then Some (mant / 10 ^ length fp) else None)
         else if ed = [] \<or> \<not> list_all is_digit ed then None
         else Some (mant / 10 ^ length fp * (if fst es then 1 / 10 ^ nat e else 10 ^ nat e)))"

definition Number :: "string \<Rightarrow> jsnum" where
  "Number str =
     (let s = trim str in
      if s = [] then Fin 0
      else if s = ''Infinity'' \<or> s = ''+Infinity'' then PosInf
      else if s = ''-Infinity'' then NegInf
      else case non_decimal s of
             Some n \<Rightarrow> Fin (of_nat n)
           | None \<Rightarrow>
               (case unsigned_decimal (snd (strip_sign s)) of
                  None \<Rightarrow> NaN
                | Some v \<Rightarrow> Fin (if fst (strip_sign s) then - v else v)))"


section \<open>JavaScript values\<close>

text \<open>
  What \<open>yaml.load\<close> hands to the server is an arbitrary value. An object is the list of
  its own properties. Properties inherited from a prototype and the index and \<open>length\<close>
  properties of strings and arrays are not modelled: no name the server reads
  (\<open>episodes\<close>, \<open>podcast\<close>, \<open>title\<close>, ... and file names with an extension) is one of them.
\<close>

datatype jsval =
    Undefined
  | Null
  | JBool bool
  | JNum jsnum
  | JStr string
  | JArr "jsval list"
  | JObj "(string \<times> jsval) list"

datatype error = TypeError | IOError

fun truthy :: "jsval \<Rightarrow> bool" where
  "truthy Undefined = False"
| "truthy Null = False"
| "truthy (JBool b) = b"
| "truthy (JNum n) = (n \<noteq> NaN \<and> n \<noteq> Fin 0)"
| "truthy (JStr s) = (s \<noteq> [])"
| "truthy (JArr _) = True"
| "truthy (JObj _) = True"

text \<open>\<open>a || b\<close>\<close>

definition or_else :: "jsval \<Rightarrow> jsval \<Rightarrow> jsval" where
  "or_else a b = (if truthy a then a else b)"

text \<open>
  \<open>v.k\<close> and \<open>v[k]\<close>: a TypeError on \<open>undefined\<close> and \<open>null\<close>, the property of an
  object, \<open>undefined\<close> where there is none.
\<close>

fun get_prop :: "jsval \<Rightarrow> string \<Rightarrow> error + jsval" where
  "get_prop Undefined k = Inl TypeError"
| "get_prop Null k = Inl TypeError"
| "get_prop (JObj ps) k = Inr (case map_of ps k of None \<Rightarrow> Undefined | Some v \<Rightarrow> v)"
| "get_prop _ k = Inr Undefined"

text \<open>The same on a value known to be truthy, where the access cannot raise.\<close>

definition prop_of :: "jsval \<Rightarrow> string \<Rightarrow> jsval" where
  "prop_of v k = (case v of JObj ps \<Rightarrow> (case map_of ps k of None \<Rightarrow> Undefined | Some x \<Rightarrow> x) | _ \<Rightarrow> Undefined)"

section \<open>Durations\<close>

text \<open>
  \<open>s.split(c)\<close> for a one-character separator: the pieces between the occurrences of
  \<open>c\<close>; never an empty list, and \<open>s\<close> alone when \<open>c\<close> does not occur.
\<close>

fun js_split :: "char \<Rightarrow> string \<Rightarrow> string list" where
  "js_split c [] = [[]]"
| "js_split c (x # xs) =
     (if x = c then [] # js_split c xs
      else (case js_split c xs of [] \<Rightarrow> [[x]] | y # ys \<Rightarrow> (x # y) # ys))"

text \<open>
  \<open>parseDuration\<close>. Only a string has a \<open>split\<close> method: on any other truthy value the
  call \<open>duration.split(':')\<close> raises a TypeError.
\<close>

definition parseDuration :: "jsval \<Rightarrow> error + jsval" where
  "parseDuration duration =
     (if \<not> truthy duration then Inr Null
      else case duration of
        JStr s \<Rightarrow>
          (let parts = map Number (js_split CHR '':'' s) in
           if length parts = 2 then
             Inr (JNum (jsnum_add (jsnum_mul (parts ! 0) (Fin 60)) (parts ! 1)))
           else if length parts = 3 then
             Inr (JNum (jsnum_add (jsnum_add (jsnum_mul (parts ! 0) (Fin 3600))
                                             (jsnum_mul (parts ! 1) (Fin 60))) (parts ! 2)))
           else Inr Null)
      | _ \<Rightarrow> Inl TypeError)"

section \<open>File names\<close>

text \<open>
  Strings are sequences of 8-bit characters. The two regular expressions of
  \<open>getEpisodeDetails\<close> are anchored at the start and match a fixed number of characters,
  each a decimal digit (\<open>\d\<close>) or a literal.
\<close>

datatype atom = Digit | Lit char

fun atom_ok :: "atom \<Rightarrow> char \<Rightarrow> bool" where
  "atom_ok Digit c = is_digit c"
| "atom_ok (Lit l) c = (c = l)"

fun matches_prefix :: "atom list \<Rightarrow> string \<Rightarrow> bool" where
  "matches_prefix [] s = True"
| "matches_prefix (a # as) [] = False"
| "matches_prefix (a # as) (c # cs) = (atom_ok a c \<and> matches_prefix as cs)"

text \<open>\<open>/^(\d{4}-\d{2}-\d{2})/\<close> and \<open>/^\d{4}-\d{2}-\d{2}_/\<close>\<close>

definition DATE_RE :: "atom list" where
  "DATE_RE = [Digit, Digit, Digit, Digit, Lit CHR ''-'', Digit, Digit, Lit CHR ''-'', Digit, Digit]"

definition DATE_SEP_RE :: "atom list" where
  "DATE_SEP_RE = DATE_RE @ [Lit CHR ''_'']"

definition endsWith :: "string \<Rightarrow> string \<Rightarrow> bool" where
  "endsWith s suffix = (length suffix \<le> length s \<and> drop (length s - length suffix) s = suffix)"

text \<open>\<open>toLowerCase\<close> on the characters below 256: the letters A-Z and the capitals of Latin-1.\<close>

definition lower_char :: "char \<Rightarrow> char" where
  "lower_char c =
     (let n = of_char c :: nat in
      if (65 \<le> n \<and> n \<le> 90) \<or> (192 \<le> n \<and> n \<le> 222 \<and> n \<noteq> 215) then char_of (n + 32) else c)"

definition toLowerCase :: "string \<Rightarrow> string" where
  "toLowerCase s = map lower_char s"

text \<open>\<open>file.toLowerCase().split('.').pop()\<close>\<close>

definition extension_of :: "string \<Rightarrow> string" where
  "extension_of file = last (js_split CHR ''.'' (toLowerCase file))"

definition SUPPORTED_FORMATS :: "(string \<times> string) list" where
  "SUPPORTED_FORMATS =
     [(''mp3'', ''audio/mpeg''), (''m4a'', ''audio/mp4''), (''opus'', ''audio/opus''),
      (''ogg'', ''audio/ogg''), (''mka'', ''audio/x-matroska'')]"

text \<open>\<open>SUPPORTED_FORMATS.hasOwnProperty(ext)\<close>\<close>

definition supported :: "string \<Rightarrow> bool" where
  "supported ext = (map_of SUPPORTED_FORMATS ext \<noteq> None)"

text \<open>
  The default title: \<open>.replace(/^\d{4}-\d{2}-\d{2}_/, '')\<close>, then
  \<open>.replace(/\.mp3$/, '')\<close>, then \<open>.replace(/_/g, ' ')\<close>.
\<close>

definition strip_date :: "string \<Rightarrow> string" where
  "strip_date s = (if matches_prefix DATE_SEP_RE s then drop 11 s else s)"

definition strip_mp3 :: "string \<Rightarrow> string" where
  "strip_mp3 s = (if endsWith s ''.mp3'' then take (length s - 4) s else s)"

definition underscores_to_spaces :: "string \<Rightarrow> string" where
  "underscores_to_spaces s = map (\<lambda>c. if c = CHR ''_'' then CHR '' '' else c) s"

definition defaultTitle :: "string \<Rightarrow> string" where
  "defaultTitle filename = underscores_to_spaces (strip_mp3 (strip_date filename))"

subsection \<open>\<open>new Date("YYYY-MM-DD")\<close>\<close>

definition DayFromYear :: "int \<Rightarrow> int" where
  "DayFromYear y =
     365 * (y - 1970) + (y - 1969) div 4 - (y - 1901) div 100 + (y - 1601) div 400"

definition InLeapYear :: "int \<Rightarrow> bool" where
  "InLeapYear y = (y mod 4 = 0 \<and> (y mod 100 \<noteq> 0 \<or> y mod 400 = 0))"

text \<open>The days of the year before the first of month \<open>m\<close> (January is 0).\<close>

definition days_before_month :: "int \<Rightarrow> int \<Rightarrow> int" where
  "days_before_month y m =
     [0, 31, 59, 90, 120, 151, 181, 212, 243, 273, 304, 334] ! nat m
     + (if 2 \<le> m \<and> InLeapYear y then 1 else 0)"

text \<open>
  \<open>MakeDay\<close>: the day number of the \<open>date\<close>-th day counted from the first of the month; a
  day past the end of the month runs into the following one.
\<close>

definition MakeDay :: "int \<Rightarrow> int \<Rightarrow> int \<Rightarrow> int" where
  "MakeDay year month date =
     (let ym = year + month div 12; mn = month mod 12
      in DayFromYear ym + days_before_month ym mn + date - 1)"

text \<open>
  The constructor is only ever given the ten characters \<open>DATE_RE\<close> matched. Node's V8
  reads them as a date-only ISO string, midnight UTC: the month has to be 01-12 and the
  day 01-31, whatever the month; anything else is an invalid date.
\<close>

definition year_of :: "string \<Rightarrow> int" where
  "year_of s = int (digits_value 10 (take 4 s))"

definition month_of :: "string \<Rightarrow> int" where
  "month_of s = int (digits_value 10 (take 2 (drop 5 s)))"

definition day_of :: "string \<Rightarrow> int" where
  "day_of s = int (digits_value 10 (take 2 (drop 8 s)))"

definition new_Date :: "string \<Rightarrow> jsdate" where
  "new_Date s =
     (if 1 \<le> month_of s \<and> month_of s \<le> 12 \<and> 1 \<le> day_of s \<and> day_of s \<le> 31
      then DateMs (MakeDate (MakeDay (year_of s) (month_of s - 1) (day_of s)) 0)
      else InvalidDate)"

section \<open>Episodes\<close>

record episode =
  filename :: string
  releaseDate :: "jsdate option"
  title :: jsval
  description :: jsval
  author :: jsval
  duration :: jsval
  explicit :: jsval
  categories :: jsval
  keywords_field :: jsval
  image_field :: jsval

text \<open>
  \<open>const episodeMetadata = metadata.episodes[filename] || {}\<close>: the access raises when
  \<open>metadata\<close> is \<open>null\<close> or has no \<open>episodes\<close>; the result is truthy.
\<close>

definition episodeMetadata :: "string \<Rightarrow> jsval \<Rightarrow> error + jsval" where
  "episodeMetadata file metadata =
     (case get_prop metadata ''episodes'' of
        Inl e \<Rightarrow> Inl e
      | Inr episodes \<Rightarrow>
          (case get_prop episodes file of
             Inl e \<Rightarrow> Inl e
           | Inr entry \<Rightarrow> Inr (or_else entry (JObj []))))"

text \<open>
  \<open>getEpisodeDetails(filename, metadata = { episodes: {} })\<close>: the default stands in
  for \<open>undefined\<close> only. Reading the properties of the truthy \<open>episodeMetadata\<close> does
  not raise; \<open>parseDuration\<close> may.
\<close>

definition getEpisodeDetails :: "string \<Rightarrow> jsval \<Rightarrow> error + episode" where
  "getEpisodeDetails file metadata0 =
     (let metadata = (if metadata0 = Undefined then JObj [(''episodes'', JObj [])] else metadata0);
          dateMatch = (if matches_prefix DATE_RE file then Some (take 10 file) else None)
      in case episodeMetadata file metadata of
           Inl e \<Rightarrow> Inl e
         | Inr m \<Rightarrow>
             (case parseDuration (prop_of m ''duration'') of
                Inl e \<Rightarrow> Inl e
              | Inr seconds \<Rightarrow>
                  Inr \<lparr> filename = file,
                        releaseDate = map_option new_Date dateMatch,
                        title = or_else (prop_of m ''title'') (JStr (defaultTitle file)),
                        description = or_else (prop_of m ''description'')
                                        (JStr (''Episode: '' @ defaultTitle file)),
                        author = prop_of m ''author'',
                        duration = seconds,
                        explicit = prop_of m ''explicit'',
                        categories = or_else (prop_of m ''categories'') (JArr []),
                        keywords_field = or_else (prop_of m ''keywords'') (JArr []),
                        image_field = prop_of m ''image'' \<rparr>))"

section \<open>The server and its surroundings\<close>

text \<open>
  What a request handler reads from outside: the configured token, the time zone and the
  clock, the origin of the request (\<open>req.protocol://req.get('host')\<close>), the metadata
  file, and the audio directory. A request is answered at one instant: every reading of
  the clock while it is handled gives \<open>now\<close>.
\<close>

datatype yaml_read = Unreadable | Loaded jsval

record stats =
  stat_size :: nat
  mtime :: jsdate

record asset =
  asset_url :: jsval
  asset_size :: jsval
  asset_uuid :: jsval

record env =
  SECRET_TOKEN :: string
  LocalTZA :: int
  now :: int
  origin :: string
  metadata_yml :: yaml_read
  readdir :: "string list option"
  access :: "string \<Rightarrow> bool"
  stat :: "string \<Rightarrow> stats option"
  glitch :: "((string \<times> asset) list \<times> string list) option"

text \<open>
  \<open>metadata_yml\<close> is the outcome of reading the file and \<open>yaml.load\<close>: \<open>Unreadable\<close> when
  either raises. \<open>readdir\<close> is \<open>fsPromises.readdir(AUDIO_DIR)\<close>, \<open>None\<close> when it is
  rejected; \<open>access\<close> and \<open>stat\<close> are \<open>fsPromises.access\<close> and \<open>fsPromises.stat\<close> on a name
  in that directory. \<open>glitch\<close> is \<open>None\<close> when \<open>isGlitch()\<close> is false and otherwise what
  \<open>getGlitchAssets\<close> returns: the assets in the order of the \<open>Map\<close> and the deleted names.
\<close>

datatype response =
    JsonError nat string
  | AudioStream "string option" string
  | Redirect jsval
  | FeedXml "feed_item list"
  | EpisodesJson jsval "episode list"
and feed_item =
    FeedItem
      (item_title: jsval) (item_description: jsval) (item_url: jsval) (item_date: jsdate)
      (enclosure_url: jsval) (enclosure_size: jsval) (enclosure_type: "string option")
      (itunesAuthor: jsval) (itunesDuration: jsval) (itunesExplicit: jsval)
      (itunesSubtitle: jsval) (itunesImage: jsval) (itunesKeywords: jsval)

text \<open>
  \<open>JsonError n msg\<close> is \<open>res.status(n).json({ error: msg })\<close>; \<open>AudioStream t f\<close> the
  file \<open>f\<close> piped into the response with content type \<open>t\<close>; \<open>FeedXml\<close> the document built
  from the items added to the feed, in order; \<open>EpisodesJson p es\<close> is
  \<open>res.json({ podcast: p, episodes: es })\<close>.
\<close>

definition loadMetadata :: "yaml_read \<Rightarrow> jsval" where
  "loadMetadata r =
     (case r of
        Loaded parsed \<Rightarrow> or_else parsed (JObj [(''episodes'', JObj []), (''podcast'', JObj [])])
      | Unreadable \<Rightarrow> JObj [(''episodes'', JObj []), (''podcast'', JObj [])])"

text \<open>\<open>checkSecret\<close>: the response it sends, or \<open>None\<close> when it calls \<open>next()\<close>.\<close>

definition checkSecret :: "env \<Rightarrow> jsval \<Rightarrow> response option" where
  "checkSecret e token =
     (if token \<noteq> JStr (SECRET_TOKEN e) then Some (JsonError 403 ''Invalid token'') else None)"

text \<open>\<open>xs.map(f)\<close> with a callback that may raise: the first exception ends it.\<close>

fun map_raising :: "('a \<Rightarrow> error + 'b) \<Rightarrow> 'a list \<Rightarrow> error + 'b list" where
  "map_raising f [] = Inr []"
| "map_raising f (x # xs) =
     (case f x of
        Inl e \<Rightarrow> Inl e
      | Inr y \<Rightarrow> (case map_raising f xs of Inl e \<Rightarrow> Inl e | Inr ys \<Rightarrow> Inr (y # ys)))"

text \<open>
  \<open>(a, b) => (b.releaseDate || 0) - (a.releaseDate || 0)\<close>, and \<open>sort\<close> with it: a stable
  sort that keeps \<open>a\<close> before a later \<open>b\<close> unless the comparator is positive (NaN counts
  as zero). With an invalid date in the list the comparator is not an ordering and the
  order an engine produces is its own; the model then gives the order of a stable
  insertion sort.
\<close>

definition date_or_zero :: "jsdate option \<Rightarrow> jsnum" where
  "date_or_zero d =
     (case d of None \<Rightarrow> Fin 0 | Some InvalidDate \<Rightarrow> NaN | Some (DateMs t) \<Rightarrow> Fin (of_int t))"

definition compareEpisodes :: "episode \<Rightarrow> episode \<Rightarrow> jsnum" where
  "compareEpisodes a b = jsnum_sub (date_or_zero (releaseDate b)) (date_or_zero (releaseDate a))"

fun insert_by :: "('a \<Rightarrow> 'a \<Rightarrow> jsnum) \<Rightarrow> 'a \<Rightarrow> 'a list \<Rightarrow> 'a list" where
  "insert_by cmp x [] = [x]"
| "insert_by cmp x (y # ys) =
     (if 0 < jsnum_sgn (cmp x y) then y # insert_by cmp x ys else x # y # ys)"

definition sort_by :: "('a \<Rightarrow> 'a \<Rightarrow> jsnum) \<Rightarrow> 'a list \<Rightarrow> 'a list" where
  "sort_by cmp xs = foldr (insert_by cmp) xs []"

text \<open>The gate as a handler applies it to an episode.\<close>

definition released :: "env \<Rightarrow> episode \<Rightarrow> bool" where
  "released e episode = shouldReleaseEpisode (LocalTZA e) (now e) (releaseDate episode)"

subsection \<open>\<open>/audio\<close>\<close>


subsection \<open>\<open>/feed.xml\<close>\<close>

definition audio_link :: "env \<Rightarrow> string \<Rightarrow> string" where
  "audio_link e file = origin e @ ''/audio/'' @ file @ ''?token='' @ SECRET_TOKEN e"

definition date_or :: "jsdate option \<Rightarrow> jsdate \<Rightarrow> jsdate" where
  "date_or d other = (case d of None \<Rightarrow> other | Some x \<Rightarrow> x)"

definition feedItem :: "env \<Rightarrow> episode \<Rightarrow> stats \<Rightarrow> feed_item" where
  "feedItem e episode st =
     FeedItem (title episode) (description episode) (JStr (audio_link e (filename episode)))
       (date_or (releaseDate episode) (mtime st))
       (JStr (audio_link e (filename episode))) (JNum (Fin (of_nat (stat_size st))))
       (map_of SUPPORTED_FORMATS (extension_of (filename episode)))
       (author episode) (duration episode) (explicit episode) (description episode)
       (image_field episode) (keywords_field episode)"

text \<open>The loop over the sorted episodes; a rejected \<open>stat\<close> ends the request.\<close>

fun addItems :: "env \<Rightarrow> episode list \<Rightarrow> error + feed_item list" where
  "addItems e [] = Inr []"
| "addItems e (episode # rest) =
     (if shouldReleaseEpisode (LocalTZA e) (now e) (releaseDate episode) then
        (case stat e (filename episode) of
           None \<Rightarrow> Inl IOError
         | Some st \<Rightarrow>
             (case addItems e rest of
                Inl err \<Rightarrow> Inl err
              | Inr items \<Rightarrow> Inr (feedItem e episode st # items)))
      else addItems e rest)"

text \<open>
  The channel options given to the \<open>Podcast\<close> constructor come from \<open>metadata.podcast\<close>
  and the request alone; the response is modelled by its items.
\<close>

definition feed_endpoint :: "env \<Rightarrow> jsval \<Rightarrow> response" where
  "feed_endpoint e token =
     (case checkSecret e token of
        Some r \<Rightarrow> r
      | None \<Rightarrow>
          (let metadata = loadMetadata (metadata_yml e) in
           case readdir e of
             None \<Rightarrow> JsonError 500 ''Server error''
           | Some files \<Rightarrow>
               (case map_raising (\<lambda>file. getEpisodeDetails file metadata)
                       (filter (\<lambda>file. supported (extension_of file)) files) of
                  Inl err \<Rightarrow> JsonError 500 ''Server error''
                | Inr episodes \<Rightarrow>
                    (case addItems e (sort_by compareEpisodes episodes) of
                       Inl err \<Rightarrow> JsonError 500 ''Server error''
                     | Inr items \<Rightarrow> FeedXml items))))"

subsection \<open>\<open>/episodes\<close>\<close>

text \<open>
  In this file \<open>fs\<close> is the callback interface (\<open>require('fs')\<close>), and the handler calls
  \<open>fs.readdir(AUDIO_DIR)\<close> without a callback: the call raises a TypeError, which the
  handler's \<open>catch\<close> answers.
\<close>

definition fs_readdir_without_callback :: "error + string list" where
  "fs_readdir_without_callback = Inl TypeError"

definition podcast_or_empty :: "jsval \<Rightarrow> jsval" where
  "podcast_or_empty metadata = or_else (prop_of metadata ''podcast'') (JObj [])"

definition episodes_endpoint :: "env \<Rightarrow> jsval \<Rightarrow> response" where
  "episodes_endpoint e token =
     (case checkSecret e token of
        Some r \<Rightarrow> r
      | None \<Rightarrow>
          (let metadata = loadMetadata (metadata_yml e) in
           case fs_readdir_without_callback of
             Inl err \<Rightarrow> JsonError 500 ''Server error''
           | Inr audioFiles \<Rightarrow>
               (case map_raising (\<lambda>file. getEpisodeDetails file metadata)
                       (filter (\<lambda>file. endsWith file ''.mp3'') audioFiles) of
                  Inl err \<Rightarrow> JsonError 500 ''Server error''
                | Inr episodes \<Rightarrow>
                    EpisodesJson (podcast_or_empty metadata) (sort_by compareEpisodes episodes))))"

section \<open>The Glitch-aware server\<close>

text \<open>
  The second version of \<open>server.js\<close> can run on Glitch, where the audio files are assets of
  a CDN. Its \<open>fs\<close> calls all go through the promise interface. \<open>loadMetadata\<close>,
  \<open>parseDuration\<close>, \<open>getEpisodeDetails\<close>, \<open>checkSecret\<close> and \<open>shouldReleaseEpisode\<close> are
  the same; the three handlers follow. The assets are the entries of a \<open>Map\<close>, each name
  once.
\<close>

definition glitch_audio_endpoint :: "env \<Rightarrow> jsval \<Rightarrow> string \<Rightarrow> response" where
  "glitch_audio_endpoint e token file =
     (case checkSecret e token of
        Some r \<Rightarrow> r
      | None \<Rightarrow>
          (let metadata = loadMetadata (metadata_yml e);
               local =
                 (if \<not> access e file then JsonError 404 ''File not found''
                  else if \<not> supported (extension_of file) then JsonError 400 ''Unsupported file format''
                  else case getEpisodeDetails file metadata of
                         Inl err \<Rightarrow> JsonError 500 ''Server error''
                       | Inr episode \<Rightarrow>
                           if \<not> shouldReleaseEpisode (LocalTZA e) (now e) (releaseDate episode)
                           then JsonError 404 ''Episode not yet available''
                           else AudioStream (map_of SUPPORTED_FORMATS (extension_of file)) file)
           in case glitch e of
                None \<Rightarrow> local
              | Some (assets, deletedFiles) \<Rightarrow>
                  if file \<in> set deletedFiles then JsonError 404 ''File not found''
                  else (case map_of assets file of
                          None \<Rightarrow> local
                        | Some assetInfo \<Rightarrow>
                            if truthy (asset_url assetInfo) then Redirect (asset_url assetInfo)
                            else local)))"

definition glitchFeedItem :: "env \<Rightarrow> episode \<Rightarrow> jsval \<Rightarrow> jsval \<Rightarrow> feed_item" where
  "glitchFeedItem e episode audioUrl fileSize =
     FeedItem (title episode) (description episode) audioUrl
       (date_or (releaseDate episode) (DateMs (now e)))
       audioUrl (or_else fileSize (JNum (Fin 0)))
       (map_of SUPPORTED_FORMATS (extension_of (filename episode)))
       (author episode) (duration episode) (explicit episode) (description episode)
       (image_field episode) (keywords_field episode)"

fun glitchAddItems :: "env \<Rightarrow> episode list \<Rightarrow> error + feed_item list" where
  "glitchAddItems e [] = Inr []"
| "glitchAddItems e (episode # rest) =
     (if shouldReleaseEpisode (LocalTZA e) (now e) (releaseDate episode) then
        (case glitch e of
           Some (assets, deletedFiles) \<Rightarrow>
             (case map_of assets (filename episode) of
                None \<Rightarrow> glitchAddItems e rest
              | Some assetInfo \<Rightarrow>
                  if \<not> truthy (asset_url assetInfo) then glitchAddItems e rest
                  else (case glitchAddItems e rest of
                          Inl err \<Rightarrow> Inl err
                        | Inr items \<Rightarrow>
                            Inr (glitchFeedItem e episode (asset_url assetInfo) (asset_size assetInfo)
                                 # items)))
         | None \<Rightarrow>
             (case stat e (filename episode) of
                None \<Rightarrow> Inl IOError
              | Some st \<Rightarrow>
                  (case glitchAddItems e rest of
                     Inl err \<Rightarrow> Inl err
                   | Inr items \<Rightarrow>
                       Inr (glitchFeedItem e episode (JStr (audio_link e (filename episode)))
                              (JNum (Fin (of_nat (stat_size st))))
                            # items))))
      else glitchAddItems e rest)"

text \<open>The candidate files of \<open>/feed.xml\<close>, on Glitch and off it; \<open>None\<close> when \<open>readdir\<close> is rejected.\<close>

definition glitch_feed_files :: "env \<Rightarrow> string list option" where
  "glitch_feed_files e =
     (case glitch e of
        Some (assets, deletedFiles) \<Rightarrow>
          Some (filter (\<lambda>file. supported (extension_of file) \<and> file \<notin> set deletedFiles)
                  (map fst assets))
      | None \<Rightarrow> map_option (filter (\<lambda>file. supported (extension_of file))) (readdir e))"

definition glitch_feed_endpoint :: "env \<Rightarrow> jsval \<Rightarrow> response" where
  "glitch_feed_endpoint e token =
     (case checkSecret e token of
        Some r \<Rightarrow> r
      | None \<Rightarrow>
          (let metadata = loadMetadata (metadata_yml e) in
           case glitch_feed_files e of
             None \<Rightarrow> JsonError 500 ''Server error''
           | Some files \<Rightarrow>
               (case map_raising (\<lambda>file. getEpisodeDetails file metadata) files of
                  Inl err \<Rightarrow> JsonError 500 ''Server error''
                | Inr episodes \<Rightarrow>
                    (case glitchAddItems e (sort_by compareEpisodes episodes) of
                       Inl err \<Rightarrow> JsonError 500 ''Server error''
                     | Inr items \<Rightarrow> FeedXml items))))"

text \<open>The candidate files of \<open>/episodes\<close>: off Glitch, the names ending in \<open>.mp3\<close>.\<close>

definition glitch_episodes_files :: "env \<Rightarrow> string list option" where
  "glitch_episodes_files e =
     (case glitch e of
        Some (assets, deletedFiles) \<Rightarrow>
          Some (filter (\<lambda>file. supported (extension_of file) \<and> file \<notin> set deletedFiles)
                  (map fst assets))
      | None \<Rightarrow> map_option (filter (\<lambda>file. endsWith file ''.mp3'')) (readdir e))"

definition glitch_episodes_endpoint :: "env \<Rightarrow> jsval \<Rightarrow> response" where
  "glitch_episodes_endpoint e token =
     (case checkSecret e token of
        Some r \<Rightarrow> r
      | None \<Rightarrow>
          (let metadata = loadMetadata (metadata_yml e) in
           case glitch_episodes_files e of
             None \<Rightarrow> JsonError 500 ''Server error''
           | Some files \<Rightarrow>
               (case map_raising (\<lambda>file. getEpisodeDetails file metadata) files of
                  Inl err \<Rightarrow> JsonError 500 ''Server error''
                | Inr episodes \<Rightarrow>
                    EpisodesJson (podcast_or_empty metadata) (sort_by compareEpisodes episodes))))"

text \<open>
  How an item of the Glitch-aware feed relates to the episode it was built from, and
  whether the feed finds a location for an episode: always off Glitch (the local URL),
  on Glitch when the asset of that name has a truthy \<open>url\<close>.
\<close>

definition item_matches :: "env \<Rightarrow> feed_item \<Rightarrow> episode \<Rightarrow> bool" where
  "item_matches e it episode =
     (item_title it = title episode \<and> item_description it = description episode
      \<and> item_date it = date_or (releaseDate episode) (DateMs (now e))
      \<and> enclosure_type it = map_of SUPPORTED_FORMATS (extension_of (filename episode))
      \<and> itunesAuthor it = author episode \<and> itunesDuration it = duration episode
      \<and> itunesExplicit it = explicit episode \<and> itunesSubtitle it = description episode
      \<and> itunesImage it = image_field episode \<and> itunesKeywords it = keywords_field episode)"

definition has_location :: "env \<Rightarrow> episode \<Rightarrow> bool" where
  "has_location e episode =
     (case glitch e of
        None \<Rightarrow> True
      | Some (assets, deletedFiles) \<Rightarrow>
          (case map_of assets (filename episode) of
             None \<Rightarrow> False
           | Some assetInfo \<Rightarrow> truthy (asset_url assetInfo)))"

section \<open>A sample deployment\<close>

text \<open>
  A server at UTC on 1 December 2024, 10:46:40 UTC, with five files in its audio
  directory and a metadata file with one episode entry.
\<close>

definition sample_files :: "string list" where
  "sample_files =
     [''bonus_track.mp3'', ''2024-12-24_Eve.mp3'', ''2024-12-01_First_Day.mp3'',
      ''2024-11-30_Prelude.ogg'', ''cover.jpg'']"

definition sample_metadata :: jsval where
  "sample_metadata =
     JObj [(''podcast'', JObj [(''title'', JStr ''Advent'')]),
           (''episodes'',
            JObj [(''2024-12-24_Eve.mp3'',
                   JObj [(''description'', JStr ''The grand finale!''), (''duration'', JStr ''5:30'')])])]"

definition sample_env :: env where
  "sample_env =
     \<lparr> SECRET_TOKEN = ''secret'', LocalTZA = 0, now = 1733050000000,
       origin = ''https://pod.example'', metadata_yml = Loaded sample_metadata,
       readdir = Some sample_files,
       access = (\<lambda>file. file \<in> set sample_files),
       stat = (\<lambda>file. if file \<in> set sample_files
                       then Some \<lparr> stat_size = 1000, mtime = DateMs 1730000000000 \<rparr> else None),
       glitch = None \<rparr>"

text \<open>The episodes of the sample files, and the same deployment with \<open>mp3\<close> files only.\<close>

definition eve_episode :: episode where
  "eve_episode =
     \<lparr> filename = ''2024-12-24_Eve.mp3'', releaseDate = Some (DateMs 1734998400000),
       title = JStr ''Eve'', description = JStr ''The grand finale!'', author = Undefined,
       duration = JNum (Fin 330), explicit = Undefined, categories = JArr [],
       keywords_field = JArr [], image_field = Undefined \<rparr>"

definition first_day_episode :: episode where
  "first_day_episode =
     \<lparr> filename = ''2024-12-01_First_Day.mp3'', releaseDate = Some (DateMs 1733011200000),
       title = JStr ''First Day'', description = JStr ''Episode: First Day'', author = Undefined,
       duration = Null, explicit = Undefined, categories = JArr [],
       keywords_field = JArr [], image_field = Undefined \<rparr>"

definition bonus_episode :: episode where
  "bonus_episode =
     \<lparr> filename = ''bonus_track.mp3'', releaseDate = None,
       title = JStr ''bonus track'', description = JStr ''Episode: bonus track'',
       author = Undefined, duration = Null, explicit = Undefined, categories = JArr [],
       keywords_field = JArr [], image_field = Undefined \<rparr>"

definition prelude_episode :: episode where
  "prelude_episode =
     \<lparr> filename = ''2024-11-30_Prelude.ogg'', releaseDate = Some (DateMs 1732924800000),
       title = JStr ''Prelude.ogg'', description = JStr ''Episode: Prelude.ogg'',
       author = Undefined, duration = Null, explicit = Undefined, categories = JArr [],
       keywords_field = JArr [], image_field = Undefined \<rparr>"

definition sample_stats :: stats where
  "sample_stats = \<lparr> stat_size = 1000, mtime = DateMs 1730000000000 \<rparr>"

definition mp3_env :: env where
  "mp3_env =
     sample_env \<lparr> readdir :=
       Some [''bonus_track.mp3'', ''2024-12-24_Eve.mp3'', ''2024-12-01_First_Day.mp3'', ''cover.jpg''] \<rparr>"

section \<open>Properties of the embedding\<close>

lemma get_prop_truthy: "truthy v \<Longrightarrow> get_prop v k = Inr (prop_of v k)"
  by (cases v) (simp_all add: prop_of_def)

lemma map_raising_Inr:
  "map_raising f xs = Inr ys \<Longrightarrow> list_all2 (\<lambda>x y. f x = Inr y) xs ys"
  by (induction xs arbitrary: ys) (auto split: sum.splits)

lemma set_insert_by: "set (insert_by cmp x ys) = insert x (set ys)"
  by (induction ys) auto

lemma set_sort_by: "set (sort_by cmp xs) = set xs"
  by (induction xs) (simp_all add: sort_by_def set_insert_by)

text \<open>What a successful resolution returns, field by field.\<close>

lemma getEpisodeDetails_cases:
  assumes "getEpisodeDetails f md = Inr ep"
  obtains m seconds where
    "episodeMetadata f (if md = Undefined then JObj [(''episodes'', JObj [])] else md) = Inr m"
    and "parseDuration (prop_of m ''duration'') = Inr seconds"
    and "ep = \<lparr> filename = f,
             releaseDate = (if matches_prefix DATE_RE f then Some (new_Date (take 10 f)) else None),
             title = or_else (prop_of m ''title'') (JStr (defaultTitle f)),
             description = or_else (prop_of m ''description'') (JStr (''Episode: '' @ defaultTitle f)),
             author = prop_of m ''author'',
             duration = seconds,
             explicit = prop_of m ''explicit'',
             categories = or_else (prop_of m ''categories'') (JArr []),
             keywords_field = or_else (prop_of m ''keywords'') (JArr []),
             image_field = prop_of m ''image'' \<rparr>"
  using assms unfolding getEpisodeDetails_def Let_def
  by (simp split: sum.splits if_splits)

lemma getEpisodeDetails_releaseDate:
  assumes "getEpisodeDetails f md = Inr ep"
  shows "releaseDate ep = (if matches_prefix DATE_RE f then Some (new_Date (take 10 f)) else None)"
  using assms by (auto elim!: getEpisodeDetails_cases)




lemma episodeMetadata_entry:
  assumes "md = JObj doc" and "map_of doc ''episodes'' = Some (JObj eps)"
  shows "episodeMetadata f (if md = Undefined then JObj [(''episodes'', JObj [])] else md) =
           Inr (case map_of eps f of None \<Rightarrow> JObj [] | Some v \<Rightarrow> or_else v (JObj []))"
  using assms by (simp add: episodeMetadata_def or_else_def split: option.splits)

subsection \<open>Numbers and durations\<close>












lemma js_split_not_Nil: "js_split c s \<noteq> []"
  by (induction s) (auto split: list.splits)


lemma parseDuration_Undefined: "parseDuration Undefined = Inr Null"
  by (simp add: parseDuration_def)




lemma parseDuration_total_on_strings: "\<exists>v. parseDuration (JStr d) = Inr v"
  by (simp add: parseDuration_def Let_def)



lemma matches_prefix_append:
  "length p = length as \<Longrightarrow>
   matches_prefix (as @ bs) (p @ q) = (matches_prefix as p \<and> matches_prefix bs q)"
proof (induction as arbitrary: p)
  case Nil
  then show ?case by simp
next
  case (Cons a as)
  then obtain c cs where "p = c # cs" by (cases p) auto
  with Cons show ?case by auto
qed

lemma endsWith_append: "endsWith (xs @ ys) ys"
  by (simp add: endsWith_def)

subsection \<open>The handlers\<close>




lemma feed_endpoint_FeedXml:
  assumes "feed_endpoint e token = FeedXml items"
  obtains files episodes where "readdir e = Some files"
    and "map_raising (\<lambda>file. getEpisodeDetails file (loadMetadata (metadata_yml e)))
           (filter (\<lambda>file. supported (extension_of file)) files) = Inr episodes"
    and "addItems e (sort_by compareEpisodes episodes) = Inr items"
  using assms unfolding feed_endpoint_def checkSecret_def Let_def
  by (simp split: if_splits option.splits sum.splits)

lemma addItems_released:
  "addItems e eps = Inr items \<Longrightarrow>
   list_all2 (\<lambda>it ep. \<exists>st. stat e (filename ep) = Some st \<and> it = feedItem e ep st)
     items (filter (released e) eps)"
  by (induction eps arbitrary: items)
     (auto simp: released_def split: if_splits option.splits sum.splits)





lemma glitchFeedItem_matches: "item_matches e (glitchFeedItem e ep u sz) ep"
  by (simp add: item_matches_def glitchFeedItem_def)

lemma glitchAddItems_included:
  "glitchAddItems e eps = Inr items \<Longrightarrow>
   list_all2 (item_matches e) items (filter (\<lambda>ep. released e ep \<and> has_location e ep) eps)"
proof (induction eps arbitrary: items)
  case Nil
  then show ?case by simp
next
  case (Cons ep eps)
  show ?case
  proof (cases "released e ep \<and> has_location e ep")
    case False
    with Cons.prems have "glitchAddItems e eps = Inr items"
      by (auto simp: released_def has_location_def split: option.splits if_splits sum.splits)
    from Cons.IH [OF this] False show ?thesis by auto
  next
    case True
    with Cons.prems obtain rest u sz where r: "glitchAddItems e eps = Inr rest"
      and i: "items = glitchFeedItem e ep u sz # rest"
      by (auto simp: released_def has_location_def split: option.splits if_splits sum.splits)
    from Cons.IH [OF r] True i show ?thesis by (auto simp: glitchFeedItem_matches)
  qed
qed

lemma glitch_feed_endpoint_FeedXml:
  assumes "glitch_feed_endpoint e token = FeedXml items"
  obtains files episodes where "glitch_feed_files e = Some files"
    and "map_raising (\<lambda>file. getEpisodeDetails file (loadMetadata (metadata_yml e))) files
           = Inr episodes"
    and "glitchAddItems e (sort_by compareEpisodes episodes) = Inr items"
  using assms unfolding glitch_feed_endpoint_def checkSecret_def Let_def
  by (simp split: if_splits option.splits sum.splits)

lemma glitch_episodes_endpoint_EpisodesJson:
  assumes "glitch_episodes_endpoint e token = EpisodesJson p eps"
  obtains files episodes where "glitch_episodes_files e = Some files"
    and "map_raising (\<lambda>file. getEpisodeDetails file (loadMetadata (metadata_yml e))) files
           = Inr episodes"
    and "eps = sort_by compareEpisodes episodes"
    and "p = podcast_or_empty (loadMetadata (metadata_yml e))"
  using assms unfolding glitch_episodes_endpoint_def checkSecret_def Let_def
  by (simp split: if_splits option.splits sum.splits)

subsection \<open>The sample deployment\<close>

lemma sample_feed:
  "feed_endpoint sample_env (JStr ''secret'') =
     FeedXml [feedItem sample_env first_day_episode sample_stats,
              feedItem sample_env prelude_episode sample_stats,
              feedItem sample_env bonus_episode sample_stats]"
  by code_simp

lemma mp3_feed:
  "glitch_feed_endpoint mp3_env (JStr ''secret'') =
     FeedXml [glitchFeedItem mp3_env first_day_episode
                (JStr ''https://pod.example/audio/2024-12-01_First_Day.mp3?token=secret'')
                (JNum (Fin 1000)),
              glitchFeedItem mp3_env bonus_episode
                (JStr ''https://pod.example/audio/bonus_track.mp3?token=secret'')
                (JNum (Fin 1000))]"
  by code_simp

lemma mp3_episodes:
  "glitch_episodes_endpoint mp3_env (JStr ''secret'') =
     EpisodesJson (JObj [(''title'', JStr ''Advent'')])
       [eve_episode, first_day_episode, bonus_episode]"
  by code_simp

section \<open>The release gate\<close>






section \<open>Resolving an episode\<close>

text \<open>
  C3, at a file with another supported extension than \<open>mp3\<close>: for
  \<open>2024-12-02_Second_Day.m4a\<close> the release date is 2 December 2024 (midnight UTC), and the
  default title keeps the extension, \<open>Second Day.m4a\<close>: only a trailing \<open>.mp3\<close> is
  removed.
\<close>

theorem getEpisodeDetails_m4a_keeps_extension:
  "getEpisodeDetails ''2024-12-02_Second_Day.m4a'' Undefined =
     Inr \<lparr> filename = ''2024-12-02_Second_Day.m4a'', releaseDate = Some (DateMs 1733097600000),
           title = JStr ''Second Day.m4a'', description = JStr ''Episode: Second Day.m4a'',
           author = Undefined, duration = Null, explicit = Undefined, categories = JArr [],
           keywords_field = JArr [], image_field = Undefined \<rparr>
   \<and> supported (extension_of ''2024-12-02_Second_Day.m4a'')"
  by code_simp

text \<open>
  C9, at a metadata document with a \<open>podcast\<close> section and no \<open>episodes\<close> section:
  \<open>loadMetadata\<close> returns the document as it is, and resolving any file name against it
  raises a TypeError, which \<open>/feed.xml\<close> answers with status 500.
\<close>

theorem getEpisodeDetails_raises_without_episodes:
  "loadMetadata (Loaded (JObj [(''podcast'', JObj [(''title'', JStr ''Advent'')])]))
     = JObj [(''podcast'', JObj [(''title'', JStr ''Advent'')])]
   \<and> getEpisodeDetails ''2024-12-01_First.mp3''
       (loadMetadata (Loaded (JObj [(''podcast'', JObj [(''title'', JStr ''Advent'')])])))
     = Inl TypeError
   \<and> getEpisodeDetails ''2024-12-01_First.mp3''
       (JObj [(''episodes'', JObj [(''2024-12-01_First.mp3'', JObj [(''duration'', JNum (Fin 330))])])])
     = Inl TypeError"
  by code_simp




text \<open>
  C4, as the code has it. For a metadata document with an \<open>episodes\<close> mapping: when the
  mapping has no entry for the file, the episode carries the computed title and
  description, \<open>null\<close> for the duration, empty lists for categories and keywords and
  \<open>undefined\<close> for author, explicit and image. When the entry is an object, title,
  description, categories and keywords carry the entry's value if that value is truthy
  and the default otherwise (an omitted field, and also an empty string, \<open>0\<close>, \<open>false\<close> or
  \<open>null\<close>); author, explicit and image carry the entry's value as it is; the duration is
  \<open>parseDuration\<close> of the entry's duration, \<open>null\<close> when it is omitted.
\<close>

theorem getEpisodeDetails_precedence:
  assumes "md = JObj doc" and "map_of doc ''episodes'' = Some (JObj eps)"
  shows "(map_of eps f = None \<longrightarrow>
            getEpisodeDetails f md =
              Inr \<lparr> filename = f,
                    releaseDate = (if matches_prefix DATE_RE f then Some (new_Date (take 10 f)) else None),
                    title = JStr (defaultTitle f),
                    description = JStr (''Episode: '' @ defaultTitle f),
                    author = Undefined, duration = Null, explicit = Undefined,
                    categories = JArr [], keywords_field = JArr [], image_field = Undefined \<rparr>)
       \<and> (map_of eps f = Some (JObj props) \<and> getEpisodeDetails f md = Inr ep \<longrightarrow>
            title ep = (if truthy (prop_of (JObj props) ''title'') then prop_of (JObj props) ''title''
                        else JStr (defaultTitle f))
          \<and> description ep =
              (if truthy (prop_of (JObj props) ''description'') then prop_of (JObj props) ''description''
               else JStr (''Episode: '' @ defaultTitle f))
          \<and> categories ep =
              (if truthy (prop_of (JObj props) ''categories'') then prop_of (JObj props) ''categories''
               else JArr [])
          \<and> keywords_field ep =
              (if truthy (prop_of (JObj props) ''keywords'') then prop_of (JObj props) ''keywords''
               else JArr [])
          \<and> author ep = prop_of (JObj props) ''author''
          \<and> explicit ep = prop_of (JObj props) ''explicit''
          \<and> image_field ep = prop_of (JObj props) ''image''
          \<and> parseDuration (prop_of (JObj props) ''duration'') = Inr (duration ep)
          \<and> (map_of props ''duration'' = None \<longrightarrow> duration ep = Null))"
proof (rule conjI; rule impI)
  assume none: "map_of eps f = None"
  have m: "episodeMetadata f (if md = Undefined then JObj [(''episodes'', JObj [])] else md)
             = Inr (JObj [])"
    using episodeMetadata_entry [OF assms, of f] none by simp
  show "getEpisodeDetails f md =
              Inr \<lparr> filename = f,
                    releaseDate = (if matches_prefix DATE_RE f then Some (new_Date (take 10 f)) else None),
                    title = JStr (defaultTitle f),
                    description = JStr (''Episode: '' @ defaultTitle f),
                    author = Undefined, duration = Null, explicit = Undefined,
                    categories = JArr [], keywords_field = JArr [], image_field = Undefined \<rparr>"
    unfolding getEpisodeDetails_def Let_def m
    by (simp add: prop_of_def or_else_def parseDuration_Undefined)
next
  assume a: "map_of eps f = Some (JObj props) \<and> getEpisodeDetails f md = Inr ep"
  have m: "episodeMetadata f (if md = Undefined then JObj [(''episodes'', JObj [])] else md)
             = Inr (JObj props)"
    using episodeMetadata_entry [OF assms, of f] a by (simp add: or_else_def)
  have u: "prop_of (JObj props) ''duration'' = Undefined" if "map_of props ''duration'' = None"
    using that by (simp add: prop_of_def)
  from a have "getEpisodeDetails f md = Inr ep" by simp
  then show "title ep = (if truthy (prop_of (JObj props) ''title'') then prop_of (JObj props) ''title''
                        else JStr (defaultTitle f))
          \<and> description ep =
              (if truthy (prop_of (JObj props) ''description'') then prop_of (JObj props) ''description''
               else JStr (''Episode: '' @ defaultTitle f))
          \<and> categories ep =
              (if truthy (prop_of (JObj props) ''categories'') then prop_of (JObj props) ''categories''
               else JArr [])
          \<and> keywords_field ep =
              (if truthy (prop_of (JObj props) ''keywords'') then prop_of (JObj props) ''keywords''
               else JArr [])
          \<and> author ep = prop_of (JObj props) ''author''
          \<and> explicit ep = prop_of (JObj props) ''explicit''
          \<and> image_field ep = prop_of (JObj props) ''image''
          \<and> parseDuration (prop_of (JObj props) ''duration'') = Inr (duration ep)
          \<and> (map_of props ''duration'' = None \<longrightarrow> duration ep = Null)"
    unfolding getEpisodeDetails_def Let_def m
    by (auto simp: or_else_def u parseDuration_Undefined split: sum.splits)
qed

theorem getEpisodeDetails_precedence_witness:
  "getEpisodeDetails ''2024-12-24_Eve.mp3'' sample_metadata =
     Inr \<lparr> filename = ''2024-12-24_Eve.mp3'', releaseDate = Some (DateMs 1734998400000),
           title = JStr ''Eve'', description = JStr ''The grand finale!'', author = Undefined,
           duration = JNum (Fin 330), explicit = Undefined, categories = JArr [],
           keywords_field = JArr [], image_field = Undefined \<rparr>
   \<and> getEpisodeDetails ''bonus_track.mp3'' sample_metadata =
     Inr \<lparr> filename = ''bonus_track.mp3'', releaseDate = None,
           title = JStr ''bonus track'', description = JStr ''Episode: bonus track'',
           author = Undefined, duration = Null, explicit = Undefined, categories = JArr [],
           keywords_field = JArr [], image_field = Undefined \<rparr>"
proof -
  define eps where "eps = [(''2024-12-24_Eve.mp3'',
                   JObj [(''description'', JStr ''The grand finale!''), (''duration'', JStr ''5:30'')])]"
  define doc where "doc = [(''podcast'', JObj [(''title'', JStr ''Advent'')]), (''episodes'', JObj eps)]"
  have md: "sample_metadata = JObj doc" by (simp add: sample_metadata_def doc_def eps_def)
  have e: "map_of doc ''episodes'' = Some (JObj eps)" by (simp add: doc_def)
  have eve: "getEpisodeDetails ''2024-12-24_Eve.mp3'' sample_metadata =
     Inr \<lparr> filename = ''2024-12-24_Eve.mp3'', releaseDate = Some (DateMs 1734998400000),
           title = JStr ''Eve'', description = JStr ''The grand finale!'', author = Undefined,
           duration = JNum (Fin 330), explicit = Undefined, categories = JArr [],
           keywords_field = JArr [], image_field = Undefined \<rparr>"
    by code_simp
  have present: "map_of eps ''2024-12-24_Eve.mp3'' =
      Some (JObj [(''description'', JStr ''The grand finale!''), (''duration'', JStr ''5:30'')])"
    by (simp add: eps_def)
  have absent: "map_of eps ''bonus_track.mp3'' = None" by (simp add: eps_def)
  have nodate: "\<not> matches_prefix DATE_RE ''bonus_track.mp3''"
    by (simp add: DATE_RE_def is_digit_def)
  have title: "defaultTitle ''bonus_track.mp3'' = ''bonus track''" by code_simp
  from getEpisodeDetails_precedence [OF md e, of "''bonus_track.mp3''"] absent nodate title
  have bonus: "getEpisodeDetails ''bonus_track.mp3'' sample_metadata =
     Inr \<lparr> filename = ''bonus_track.mp3'', releaseDate = None,
           title = JStr ''bonus track'', description = JStr ''Episode: bonus track'',
           author = Undefined, duration = Null, explicit = Undefined, categories = JArr [],
           keywords_field = JArr [], image_field = Undefined \<rparr>"
    by simp
  from getEpisodeDetails_precedence [OF md e, of "''2024-12-24_Eve.mp3''"
      "[(''description'', JStr ''The grand finale!''), (''duration'', JStr ''5:30'')]"] present eve
  have "description \<lparr> filename = ''2024-12-24_Eve.mp3'', releaseDate = Some (DateMs 1734998400000),
           title = JStr ''Eve'', description = JStr ''The grand finale!'', author = Undefined,
           duration = JNum (Fin 330), explicit = Undefined, categories = JArr [],
           keywords_field = JArr [], image_field = Undefined \<rparr> = JStr ''The grand finale!''"
    by simp
  with eve bonus show ?thesis by simp
qed

theorem getEpisodeDetails_falsy_override_counterexample:
  "getEpisodeDetails ''2024-12-01_First_Day.mp3''
     (JObj [(''episodes'',
             JObj [(''2024-12-01_First_Day.mp3'',
                    JObj [(''title'', JStr []), (''explicit'', JBool False),
                          (''duration'', JStr ''5:30'')])])]) =
     Inr \<lparr> filename = ''2024-12-01_First_Day.mp3'', releaseDate = Some (DateMs 1733011200000),
           title = JStr ''First Day'', description = JStr ''Episode: First Day'',
           author = Undefined, duration = JNum (Fin 330), explicit = JBool False,
           categories = JArr [], keywords_field = JArr [], image_field = Undefined \<rparr>"
  by code_simp

section \<open>The endpoints\<close>







text \<open>
  C1, as the code has it. The items of \<open>/feed.xml\<close> are built, in order, from exactly the
  released episodes among the resolved and sorted candidates (in the Glitch-aware
  version: the released ones that have a location), so no episode whose release date is
  after local midnight of the current day is in the feed. \<open>/episodes\<close> applies no gate:
  where it answers with a listing, the listing is the resolved and sorted candidates,
  every one of them, released or not.
\<close>

theorem feed_gated_listing_not:
  "(feed_endpoint e token = FeedXml items \<longrightarrow>
      (\<exists>files episodes. readdir e = Some files
         \<and> list_all2 (\<lambda>file episode. getEpisodeDetails file (loadMetadata (metadata_yml e)) = Inr episode)
              (filter (\<lambda>file. supported (extension_of file)) files) episodes
         \<and> list_all2 (\<lambda>it episode. \<exists>st. it = feedItem e episode st) items
              (filter (released e) (sort_by compareEpisodes episodes))))
   \<and> (glitch_feed_endpoint e token = FeedXml gitems \<longrightarrow>
      (\<exists>files episodes. glitch_feed_files e = Some files
         \<and> list_all2 (\<lambda>file episode. getEpisodeDetails file (loadMetadata (metadata_yml e)) = Inr episode)
              files episodes
         \<and> list_all2 (item_matches e) gitems
              (filter (\<lambda>episode. released e episode \<and> has_location e episode)
                 (sort_by compareEpisodes episodes))))
   \<and> (glitch_episodes_endpoint e token = EpisodesJson p eps \<longrightarrow>
      (\<exists>files episodes. glitch_episodes_files e = Some files
         \<and> list_all2 (\<lambda>file episode. getEpisodeDetails file (loadMetadata (metadata_yml e)) = Inr episode)
              files episodes
         \<and> eps = sort_by compareEpisodes episodes \<and> set eps = set episodes))"
proof (intro conjI impI)
  assume "feed_endpoint e token = FeedXml items"
  then obtain files episodes where r: "readdir e = Some files"
    and m: "map_raising (\<lambda>file. getEpisodeDetails file (loadMetadata (metadata_yml e)))
           (filter (\<lambda>file. supported (extension_of file)) files) = Inr episodes"
    and a: "addItems e (sort_by compareEpisodes episodes) = Inr items"
    by (rule feed_endpoint_FeedXml)
  have "list_all2 (\<lambda>it episode. \<exists>st. it = feedItem e episode st) items
              (filter (released e) (sort_by compareEpisodes episodes))"
    using addItems_released [OF a] by (rule list_all2_mono) blast
  with r map_raising_Inr [OF m]
  show "\<exists>files episodes. readdir e = Some files
         \<and> list_all2 (\<lambda>file episode. getEpisodeDetails file (loadMetadata (metadata_yml e)) = Inr episode)
              (filter (\<lambda>file. supported (extension_of file)) files) episodes
         \<and> list_all2 (\<lambda>it episode. \<exists>st. it = feedItem e episode st) items
              (filter (released e) (sort_by compareEpisodes episodes))"
    by blast
next
  assume "glitch_feed_endpoint e token = FeedXml gitems"
  then obtain files episodes where r: "glitch_feed_files e = Some files"
    and m: "map_raising (\<lambda>file. getEpisodeDetails file (loadMetadata (metadata_yml e))) files
           = Inr episodes"
    and a: "glitchAddItems e (sort_by compareEpisodes episodes) = Inr gitems"
    by (rule glitch_feed_endpoint_FeedXml)
  from r map_raising_Inr [OF m] glitchAddItems_included [OF a]
  show "\<exists>files episodes. glitch_feed_files e = Some files
         \<and> list_all2 (\<lambda>file episode. getEpisodeDetails file (loadMetadata (metadata_yml e)) = Inr episode)
              files episodes
         \<and> list_all2 (item_matches e) gitems
              (filter (\<lambda>episode. released e episode \<and> has_location e episode)
                 (sort_by compareEpisodes episodes))"
    by blast
next
  assume "glitch_episodes_endpoint e token = EpisodesJson p eps"
  then obtain files episodes where r: "glitch_episodes_files e = Some files"
    and m: "map_raising (\<lambda>file. getEpisodeDetails file (loadMetadata (metadata_yml e))) files
           = Inr episodes"
    and s: "eps = sort_by compareEpisodes episodes"
    by (rule glitch_episodes_endpoint_EpisodesJson)
  from s have "set eps = set episodes" by (simp add: set_sort_by)
  with r map_raising_Inr [OF m] s
  show "\<exists>files episodes. glitch_episodes_files e = Some files
         \<and> list_all2 (\<lambda>file episode. getEpisodeDetails file (loadMetadata (metadata_yml e)) = Inr episode)
              files episodes
         \<and> eps = sort_by compareEpisodes episodes \<and> set eps = set episodes"
    by blast
qed

theorem feed_gated_listing_not_witness:
  "(\<exists>files episodes. readdir sample_env = Some files
      \<and> list_all2 (\<lambda>file episode.
             getEpisodeDetails file (loadMetadata (metadata_yml sample_env)) = Inr episode)
           (filter (\<lambda>file. supported (extension_of file)) files) episodes
      \<and> list_all2 (\<lambda>it episode. \<exists>st. it = feedItem sample_env episode st)
           [feedItem sample_env first_day_episode sample_stats,
            feedItem sample_env prelude_episode sample_stats,
            feedItem sample_env bonus_episode sample_stats]
           (filter (released sample_env) (sort_by compareEpisodes episodes)))
   \<and> (\<exists>files episodes. glitch_episodes_files mp3_env = Some files
      \<and> list_all2 (\<lambda>file episode.
             getEpisodeDetails file (loadMetadata (metadata_yml mp3_env)) = Inr episode)
           files episodes
      \<and> [eve_episode, first_day_episode, bonus_episode] = sort_by compareEpisodes episodes
      \<and> set [eve_episode, first_day_episode, bonus_episode] = set episodes)
   \<and> \<not> released mp3_env eve_episode"
proof -
  have a: "\<exists>files episodes. readdir sample_env = Some files
      \<and> list_all2 (\<lambda>file episode.
             getEpisodeDetails file (loadMetadata (metadata_yml sample_env)) = Inr episode)
           (filter (\<lambda>file. supported (extension_of file)) files) episodes
      \<and> list_all2 (\<lambda>it episode. \<exists>st. it = feedItem sample_env episode st)
           [feedItem sample_env first_day_episode sample_stats,
            feedItem sample_env prelude_episode sample_stats,
            feedItem sample_env bonus_episode sample_stats]
           (filter (released sample_env) (sort_by compareEpisodes episodes))"
    using feed_gated_listing_not [of sample_env "JStr ''secret''"] sample_feed by blast
  have b: "\<exists>files episodes. glitch_episodes_files mp3_env = Some files
      \<and> list_all2 (\<lambda>file episode.
             getEpisodeDetails file (loadMetadata (metadata_yml mp3_env)) = Inr episode)
           files episodes
      \<and> [eve_episode, first_day_episode, bonus_episode] = sort_by compareEpisodes episodes
      \<and> set [eve_episode, first_day_episode, bonus_episode] = set episodes"
    using feed_gated_listing_not [of mp3_env "JStr ''secret''"] mp3_episodes by blast
  have c: "\<not> released mp3_env eve_episode" by code_simp
  from a b c show ?thesis by blast
qed

theorem episodes_lists_unreleased_counterexample:
  "glitch_episodes_endpoint (sample_env \<lparr> readdir := Some [''2999-01-01_Future.mp3''] \<rparr>)
     (JStr ''secret'') =
     EpisodesJson (JObj [(''title'', JStr ''Advent'')])
       [\<lparr> filename = ''2999-01-01_Future.mp3'', releaseDate = Some (DateMs 32472144000000),
           title = JStr ''Future'', description = JStr ''Episode: Future'', author = Undefined,
           duration = Null, explicit = Undefined, categories = JArr [],
           keywords_field = JArr [], image_field = Undefined \<rparr>]
   \<and> now sample_env = 1733050000000 \<and> LocalTZA sample_env = 0
   \<and> setHours0 0 1733050000000 = 1733011200000
   \<and> \<not> shouldReleaseEpisode 0 1733050000000 (Some (DateMs 32472144000000))"
  by code_simp

text \<open>
  C6, as the code has it. Both endpoints resolve every candidate file against the same
  metadata and sort with the same comparator, but only \<open>/feed.xml\<close> applies the release
  gate. When the two endpoints select the same candidate files (on Glitch; off Glitch when
  the files with a supported extension are those ending in \<open>.mp3\<close>), the items of the
  feed are built, in order and with the same resolved fields, from exactly those
  episodes of the \<open>/episodes\<close> listing that are released (and have a location).
\<close>

theorem feed_is_released_part_of_listing:
  assumes "glitch_episodes_endpoint e token = EpisodesJson p eps"
      and "glitch_feed_endpoint e token = FeedXml items"
      and "glitch_feed_files e = glitch_episodes_files e"
  shows "list_all2 (item_matches e) items
           (filter (\<lambda>episode. released e episode \<and> has_location e episode) eps)"
proof -
  from assms(1) obtain files episodes where
    f: "glitch_episodes_files e = Some files"
    and m: "map_raising (\<lambda>file. getEpisodeDetails file (loadMetadata (metadata_yml e))) files
           = Inr episodes"
    and s: "eps = sort_by compareEpisodes episodes"
    by (rule glitch_episodes_endpoint_EpisodesJson)
  from assms(2) obtain files' episodes' where
    f': "glitch_feed_files e = Some files'"
    and m': "map_raising (\<lambda>file. getEpisodeDetails file (loadMetadata (metadata_yml e))) files'
           = Inr episodes'"
    and a: "glitchAddItems e (sort_by compareEpisodes episodes') = Inr items"
    by (rule glitch_feed_endpoint_FeedXml)
  from f f' assms(3) have "files' = files" by simp
  with m m' have "episodes' = episodes" by simp
  with a s have "glitchAddItems e eps = Inr items" by simp
  then show ?thesis by (rule glitchAddItems_included)
qed

theorem feed_is_released_part_of_listing_witness:
  "glitch_feed_files mp3_env = glitch_episodes_files mp3_env
   \<and> filter (\<lambda>episode. released mp3_env episode \<and> has_location mp3_env episode)
        [eve_episode, first_day_episode, bonus_episode] = [first_day_episode, bonus_episode]
   \<and> list_all2 (item_matches mp3_env)
        [glitchFeedItem mp3_env first_day_episode
           (JStr ''https://pod.example/audio/2024-12-01_First_Day.mp3?token=secret'')
           (JNum (Fin 1000)),
         glitchFeedItem mp3_env bonus_episode
           (JStr ''https://pod.example/audio/bonus_track.mp3?token=secret'')
           (JNum (Fin 1000))]
        (filter (\<lambda>episode. released mp3_env episode \<and> has_location mp3_env episode)
           [eve_episode, first_day_episode, bonus_episode])"
proof -
  have same: "glitch_feed_files mp3_env = glitch_episodes_files mp3_env" by code_simp
  have sel: "filter (\<lambda>episode. released mp3_env episode \<and> has_location mp3_env episode)
        [eve_episode, first_day_episode, bonus_episode] = [first_day_episode, bonus_episode]"
    by code_simp
  from feed_is_released_part_of_listing [OF mp3_episodes mp3_feed same] same sel
  show ?thesis by simp
qed

theorem feed_and_listing_differ_counterexample:
  "glitch_feed_endpoint
     (sample_env \<lparr> readdir := Some [''2024-11-30_Prelude.ogg'', ''2999-01-01_Future.mp3''] \<rparr>)
     (JStr ''secret'') =
     FeedXml
       [FeedItem (JStr ''Prelude.ogg'') (JStr ''Episode: Prelude.ogg'')
          (JStr ''https://pod.example/audio/2024-11-30_Prelude.ogg?token=secret'')
          (DateMs 1732924800000)
          (JStr ''https://pod.example/audio/2024-11-30_Prelude.ogg?token=secret'')
          (JNum (Fin 1000)) (Some ''audio/ogg'') Undefined Null Undefined
          (JStr ''Episode: Prelude.ogg'') Undefined (JArr [])]
   \<and> glitch_episodes_endpoint
     (sample_env \<lparr> readdir := Some [''2024-11-30_Prelude.ogg'', ''2999-01-01_Future.mp3''] \<rparr>)
     (JStr ''secret'') =
     EpisodesJson (JObj [(''title'', JStr ''Advent'')])
       [\<lparr> filename = ''2999-01-01_Future.mp3'', releaseDate = Some (DateMs 32472144000000),
           title = JStr ''Future'', description = JStr ''Episode: Future'', author = Undefined,
           duration = Null, explicit = Undefined, categories = JArr [],
           keywords_field = JArr [], image_field = Undefined \<rparr>]"
  by code_simp

section \<open>Further properties\<close>

text \<open>
  X1. In the first version of \<open>server.js\<close> the \<open>/episodes\<close> endpoint never answers with a
  listing: a request with the right token is answered with status 500, any other with
  status 403.
\<close>

theorem episodes_endpoint_always_fails:
  "episodes_endpoint e token =
     (if token = JStr (SECRET_TOKEN e) then JsonError 500 ''Server error''
      else JsonError 403 ''Invalid token'')"
  by (simp add: episodes_endpoint_def checkSecret_def fs_readdir_without_callback_def)

theorem episodes_endpoint_always_fails_witness:
  "episodes_endpoint sample_env (JStr ''secret'') = JsonError 500 ''Server error''
   \<and> episodes_endpoint sample_env (JStr ''guess'') = JsonError 403 ''Invalid token''"
  using episodes_endpoint_always_fails [of sample_env "JStr ''secret''"]
    episodes_endpoint_always_fails [of sample_env "JStr ''guess''"]
  by (simp add: sample_env_def)

text \<open>
  X2. The release date of a dated file is midnight UTC of that day, and the gate compares
  it with local midnight of the current day. In a time zone at or behind UTC the episode
  is released from local midnight of its day on; in a time zone ahead of UTC only from
  local midnight of the following day on.
\<close>

theorem release_instant_by_time_zone:
  assumes "t mod msPerDay = 0" and "- msPerDay < tza" and "tza < msPerDay"
  shows "shouldReleaseEpisode tza n (Some (DateMs t)) \<longleftrightarrow>
           (if tza \<le> 0 then t - tza \<le> n else t - tza + msPerDay \<le> n)"
proof -
  define P where "P = msPerDay"
  define x where "x = n + tza"
  define m where "m = x div P"
  define k where "k = t div P"
  have pos: "0 < P" by (simp add: P_def msPerDay_def)
  have t: "t = k * P" using assms(1) div_mult_mod_eq [of t msPerDay] by (simp add: k_def P_def)
  have x: "x = m * P + x mod P" by (simp add: m_def)
  have lo: "0 \<le> x mod P" and hi: "x mod P < P" using pos by simp_all
  have rel: "shouldReleaseEpisode tza n (Some (DateMs t)) \<longleftrightarrow> k * P + tza \<le> m * P"
    by (auto simp: shouldReleaseEpisode_def setHours0_def UTC_def MakeDate_def Day_def LocalTime_def
        t m_def x_def P_def)
  have up: "a * P \<le> b * P" if "a \<le> b" for a b :: int
    using that pos by (simp add: mult_right_mono)
  show ?thesis
  proof (cases "tza \<le> 0")
    case True
    have "k * P + tza \<le> m * P \<longleftrightarrow> k \<le> m"
    proof
      assume a: "k * P + tza \<le> m * P"
      show "k \<le> m"
      proof (rule ccontr)
        assume "\<not> k \<le> m"
        then have "m \<le> k - 1" by simp
        from up [OF this] have "m * P \<le> k * P - P" by (simp add: algebra_simps)
        with a assms(2) show False by (simp add: P_def)
      qed
    next
      assume "k \<le> m"
      from up [OF this] True show "k * P + tza \<le> m * P" by simp
    qed
    also have "\<dots> \<longleftrightarrow> k * P \<le> x"
    proof
      assume "k \<le> m"
      from up [OF this] x lo show "k * P \<le> x" by linarith
    next
      assume a: "k * P \<le> x"
      show "k \<le> m"
      proof (rule ccontr)
        assume "\<not> k \<le> m"
        then have "m + 1 \<le> k" by simp
        from up [OF this] have "m * P + P \<le> k * P" by (simp add: algebra_simps)
        with a x hi show False by linarith
      qed
    qed
    finally show ?thesis using True rel by (simp add: t x_def) linarith
  next
    case False
    have "k * P + tza \<le> m * P \<longleftrightarrow> k + 1 \<le> m"
    proof
      assume a: "k * P + tza \<le> m * P"
      show "k + 1 \<le> m"
      proof (rule ccontr)
        assume "\<not> k + 1 \<le> m"
        then have "m \<le> k" by simp
        from up [OF this] a False show False by simp
      qed
    next
      assume "k + 1 \<le> m"
      from up [OF this] have "k * P + P \<le> m * P" by (simp add: algebra_simps)
      with assms(3) show "k * P + tza \<le> m * P" by (simp add: P_def)
    qed
    also have "\<dots> \<longleftrightarrow> (k + 1) * P \<le> x"
    proof
      assume "k + 1 \<le> m"
      from up [OF this] x lo show "(k + 1) * P \<le> x" by linarith
    next
      assume a: "(k + 1) * P \<le> x"
      show "k + 1 \<le> m"
      proof (rule ccontr)
        assume "\<not> k + 1 \<le> m"
        then have "m + 1 \<le> k + 1" by simp
        from up [OF this] have "m * P + P \<le> (k + 1) * P" by (simp add: algebra_simps)
        with a x hi show False by linarith
      qed
    qed
    finally show ?thesis using False rel by (simp add: t x_def P_def algebra_simps)
  qed
qed

theorem release_instant_by_time_zone_witness:
  "\<not> shouldReleaseEpisode 3600000 1733093999999 (Some (DateMs 1733011200000))
   \<and> shouldReleaseEpisode 3600000 1733094000000 (Some (DateMs 1733011200000))
   \<and> \<not> shouldReleaseEpisode (- 18000000) 1733029199999 (Some (DateMs 1733011200000))
   \<and> shouldReleaseEpisode (- 18000000) 1733029200000 (Some (DateMs 1733011200000))"
proof -
  have t: "(1733011200000::int) mod msPerDay = 0" by (simp add: msPerDay_def)
  have east: "- msPerDay < (3600000::int)" "(3600000::int) < msPerDay"
    by (simp_all add: msPerDay_def)
  have west: "- msPerDay < (- 18000000::int)" "(- 18000000::int) < msPerDay"
    by (simp_all add: msPerDay_def)
  show ?thesis
    using release_instant_by_time_zone [OF t east, of 1733093999999]
      release_instant_by_time_zone [OF t east, of 1733094000000]
      release_instant_by_time_zone [OF t west, of 1733029199999]
      release_instant_by_time_zone [OF t west, of 1733029200000]
    by (simp add: msPerDay_def)
qed

text \<open>
  X3. For a file name made of a date prefix \<open>YYYY-MM-DD\<close>, an underscore, any text and
  the extension \<open>.mp3\<close>, the default title is that text with its underscores replaced by
  spaces, and the release date is the date the prefix denotes.
\<close>

theorem defaultTitle_of_mp3:
  assumes "matches_prefix DATE_RE date" and "length date = 10"
  shows "defaultTitle (date @ ''_'' @ rest @ ''.mp3'') = underscores_to_spaces rest
       \<and> (\<forall>md ep. getEpisodeDetails (date @ ''_'' @ rest @ ''.mp3'') md = Inr ep \<longrightarrow>
             releaseDate ep = Some (new_Date date))"
proof -
  have l: "length date = length DATE_RE" using assms(2) by (simp add: DATE_RE_def)
  have sep: "matches_prefix DATE_SEP_RE (date @ ''_'' @ rest @ ''.mp3'')"
    unfolding DATE_SEP_RE_def using matches_prefix_append [OF l] assms(1) by simp
  have d: "strip_date (date @ ''_'' @ rest @ ''.mp3'') = rest @ ''.mp3''"
    using sep assms(2) by (simp add: strip_date_def)
  have m: "strip_mp3 (rest @ ''.mp3'') = rest"
    using endsWith_append [of rest "''.mp3''"] by (simp add: strip_mp3_def)
  have a: "defaultTitle (date @ ''_'' @ rest @ ''.mp3'') = underscores_to_spaces rest"
    using d m by (simp add: defaultTitle_def)
  have p: "matches_prefix DATE_RE (date @ ''_'' @ rest @ ''.mp3'')"
    using matches_prefix_append [OF l, of "[]"] assms(1) by simp
  have t: "take 10 (date @ ''_'' @ rest @ ''.mp3'') = date" using assms(2) by simp
  have b: "releaseDate ep = Some (new_Date date)"
    if "getEpisodeDetails (date @ ''_'' @ rest @ ''.mp3'') md = Inr ep" for md ep
    using getEpisodeDetails_releaseDate [OF that] p t by simp
  from a b show ?thesis by blast
qed

theorem defaultTitle_of_mp3_witness:
  "defaultTitle ''2024-12-01_First_Day_Of_Christmas.mp3'' = ''First Day Of Christmas''
   \<and> new_Date ''2024-12-01'' = DateMs 1733011200000"
proof -
  have p: "matches_prefix DATE_RE ''2024-12-01''" by (simp add: DATE_RE_def is_digit_def)
  have l: "length ''2024-12-01'' = 10" by simp
  have u: "underscores_to_spaces ''First_Day_Of_Christmas'' = ''First Day Of Christmas''"
    by (simp add: underscores_to_spaces_def)
  have n: "new_Date ''2024-12-01'' = DateMs 1733011200000" by code_simp
  from defaultTitle_of_mp3 [OF p l, of "''First_Day_Of_Christmas''"] u n
  show ?thesis by simp
qed

text \<open>
  X4. Resolution returns an episode, without raising, for every file name when the
  metadata document is an object whose \<open>episodes\<close> section is an object and the duration
  of the file's entry, if the entry has one, is a string or a falsy value.
\<close>

theorem getEpisodeDetails_total:
  assumes "md = JObj doc" and "map_of doc ''episodes'' = Some (JObj eps)"
    and "\<And>props v. map_of eps f = Some (JObj props) \<Longrightarrow> map_of props ''duration'' = Some v
           \<Longrightarrow> truthy v \<Longrightarrow> \<exists>s. v = JStr s"
  shows "\<exists>ep. getEpisodeDetails f md = Inr ep"
proof -
  define m where "m = (case map_of eps f of None \<Rightarrow> JObj [] | Some v \<Rightarrow> or_else v (JObj []))"
  have em: "episodeMetadata f (if md = Undefined then JObj [(''episodes'', JObj [])] else md) = Inr m"
    unfolding m_def by (rule episodeMetadata_entry [OF assms(1,2)])
  have "\<not> truthy (prop_of m ''duration'') \<or> (\<exists>s. prop_of m ''duration'' = JStr s)"
  proof (cases "map_of eps f")
    case None
    then show ?thesis by (simp add: m_def prop_of_def)
  next
    case (Some v)
    show ?thesis
    proof (cases v)
      case (JObj props)
      with Some have mm: "m = JObj props" by (simp add: m_def or_else_def)
      show ?thesis
      proof (cases "map_of props ''duration''")
        case None
        then show ?thesis by (simp add: mm prop_of_def)
      next
        case (Some w)
        with assms(3) [OF _ Some] \<open>map_of eps f = Some v\<close> JObj show ?thesis
          by (auto simp: mm prop_of_def)
      qed
    qed (use Some in \<open>auto simp: m_def or_else_def prop_of_def\<close>)
  qed
  then have "\<exists>seconds. parseDuration (prop_of m ''duration'') = Inr seconds"
  proof
    assume "\<not> truthy (prop_of m ''duration'')"
    then show ?thesis by (simp add: parseDuration_def)
  next
    assume "\<exists>s. prop_of m ''duration'' = JStr s"
    then obtain s where "prop_of m ''duration'' = JStr s" ..
    with parseDuration_total_on_strings [of s] show ?thesis by simp
  qed
  then obtain seconds where "parseDuration (prop_of m ''duration'') = Inr seconds" ..
  then show ?thesis
    unfolding getEpisodeDetails_def Let_def em by simp
qed

theorem getEpisodeDetails_total_witness:
  "\<exists>ep. getEpisodeDetails ''2024-12-24_Eve.mp3'' sample_metadata = Inr ep"
proof -
  define eps where "eps = [(''2024-12-24_Eve.mp3'',
                   JObj [(''description'', JStr ''The grand finale!''), (''duration'', JStr ''5:30'')])]"
  define doc where "doc = [(''podcast'', JObj [(''title'', JStr ''Advent'')]), (''episodes'', JObj eps)]"
  have md: "sample_metadata = JObj doc" by (simp add: sample_metadata_def doc_def eps_def)
  have e: "map_of doc ''episodes'' = Some (JObj eps)" by (simp add: doc_def)
  have d: "\<exists>s. v = JStr s"
    if "map_of eps ''2024-12-24_Eve.mp3'' = Some (JObj props)"
      and "map_of props ''duration'' = Some v" for props v
    using that by (auto simp: eps_def)
  show ?thesis by (rule getEpisodeDetails_total [OF md e]) (rule d)
qed

end
